theory Spec2Isabelle
  imports Complex_Main "HOL-Library.Sublist" "HOL-Library.Product_Lexorder"
begin

section \<open>Strings\<close>

text \<open>
  Python strings are modelled as \<open>string\<close>, one \<open>char\<close> per code point below 256.
  \<open>lower_char\<close> is \<open>str.lower\<close> on that range: the ASCII capitals and the Latin-1
  capitals (192 to 222, without the multiplication sign 215) move up by 32.
\<close>

definition lower_char :: "char \<Rightarrow> char" where
  "lower_char c =
     (let n = (of_char c :: nat)
      in if (65 \<le> n \<and> n \<le> 90) \<or> (192 \<le> n \<and> n \<le> 222 \<and> n \<noteq> 215)
         then char_of (n + 32) else c)"

definition lower :: "string \<Rightarrow> string" where
  "lower s = map lower_char s"

text \<open>\<open>starts_with p s\<close>: \<open>s.startswith(p)\<close>; \<open>py_in p s\<close>: the substring test \<open>p in s\<close>.\<close>

fun starts_with :: "string \<Rightarrow> string \<Rightarrow> bool" where
  "starts_with [] s = True"
| "starts_with (p # ps) [] = False"
| "starts_with (p # ps) (c # cs) = (p = c \<and> starts_with ps cs)"

fun py_in :: "string \<Rightarrow> string \<Rightarrow> bool" where
  "py_in p [] = (p = [])"
| "py_in p (c # cs) = (starts_with p (c # cs) \<or> py_in p cs)"

text \<open>\<open>sum(v for x in xs if x in text)\<close>, the idiom of every keyword table.\<close>

definition sum_if_in :: "real \<Rightarrow> string list \<Rightarrow> string \<Rightarrow> real" where
  "sum_if_in v xs text = (\<Sum>x\<leftarrow>xs. if py_in x text then v else 0)"

section \<open>ultra_precise_ai.py\<close>

record dim_scores =
  urgency :: real
  budget :: real
  authority :: real
  quality :: real
  negative :: real
  business_context :: real

datatype tier = Platinum | Gold | Silver | Bronze | Unqualified

text \<open>
  One rule of \<open>_calculate_pattern_score\<close>: the body of the loop for a pattern with
  \<open>matches\<close> occurrences.
\<close>

definition rule_contribution :: "real \<Rightarrow> nat \<Rightarrow> real" where
  "rule_contribution weight matches =
     (if matches > 0
      then weight * real (min matches 3) * (8 / 10) ^ (max 0 (matches - 1))
      else 0)"

text \<open>
  \<open>_calculate_pattern_score\<close>. The regular-expression engine is Python's library:
  \<open>findall pattern text\<close> stands for \<open>len(re.findall(pattern, text, re.IGNORECASE))\<close>.
  The pattern table is a dict, here the list of its items in insertion order.
\<close>

definition calculate_pattern_score ::
  "(string \<Rightarrow> string \<Rightarrow> nat) \<Rightarrow> string \<Rightarrow> (string \<times> real) list \<Rightarrow> real" where
  "calculate_pattern_score findall text patterns =
     (let text_lower = lower text
      in foldl (\<lambda>score (pattern, weight).
                  score + rule_contribution weight (findall pattern text_lower))
               0 patterns)"

definition calculate_weighted_composite ::
  "dim_scores \<Rightarrow> real \<Rightarrow> real \<Rightarrow> real \<Rightarrow> real" where
  "calculate_weighted_composite scores context_bonus engagement_score semantic_relevance =
     (let weighted_score =
            urgency scores * (20 / 100) +
            budget scores * (30 / 100) +
            authority scores * (25 / 100) +
            quality scores * (15 / 100) +
            business_context scores * (10 / 100);
          weighted_score = weighted_score + context_bonus * (5 / 10);
          weighted_score = weighted_score + engagement_score * (3 / 10);
          weighted_score = weighted_score + semantic_relevance * (4 / 10);
          weighted_score = weighted_score + negative scores
      in max 0 weighted_score)"

definition determine_tier :: "real \<Rightarrow> dim_scores \<Rightarrow> tier" where
  "determine_tier composite_score scores =
     (if composite_score \<ge> 90 \<and> budget scores \<ge> 15 \<and> authority scores \<ge> 12 then Platinum
      else if composite_score \<ge> 80 \<and> budget scores \<ge> 10 then Gold
      else if composite_score \<ge> 70 \<and> budget scores \<ge> 5 then Silver
      else if composite_score \<ge> 60 then Bronze
      else Unqualified)"

section \<open>rapid_iteration_engine.py\<close>

datatype priority = Immediate | High | Medium | Low | NoPriority

text \<open>
  The \<open>scores\<close> dict of \<open>ultra_score_lead\<close>, restricted to its numeric entries;
  \<open>get_or\<close> is \<open>dict.get(key, default)\<close>.
\<close>

type_synonym component_scores = "string \<rightharpoonup> real"

definition get_or :: "('k \<rightharpoonup> 'v) \<Rightarrow> 'k \<Rightarrow> 'v \<Rightarrow> 'v" where
  "get_or d k dflt = (case d k of None \<Rightarrow> dflt | Some v \<Rightarrow> v)"

definition calculate_semantic_similarity :: "string \<Rightarrow> string \<Rightarrow> real" where
  "calculate_semantic_similarity content title =
     (let key_terms = [''manufacturer'', ''supplier'', ''sourcing'', ''factory'', ''wholesale''];
          matches = sum_if_in 1 key_terms (lower content)
      in min 100 (matches * 20))"

definition ensemble_predict :: "string \<Rightarrow> real" where
  "ensemble_predict content =
     (let base_predictions = [65, 72, 68]
      in sum_list base_predictions / real (length base_predictions))"

definition calculate_engagement_momentum :: real where
  "calculate_engagement_momentum = 65"

definition detect_urgency_signals :: "string \<Rightarrow> real" where
  "detect_urgency_signals content =
     (let urgency_words = [''urgent'', ''asap'', ''immediately'', ''rush'', ''emergency''];
          urgency_score = sum_if_in 20 urgency_words (lower content)
      in min 100 urgency_score)"

text \<open>The entries of \<open>scores\<close> that \<open>_calculate_ultra_final_score\<close> reads.\<close>

definition ultra_component_scores :: "string \<Rightarrow> string \<Rightarrow> component_scores" where
  "ultra_component_scores content title =
     [''semantic_similarity'' \<mapsto> calculate_semantic_similarity content title,
      ''ensemble_prediction'' \<mapsto> ensemble_predict content,
      ''engagement_momentum'' \<mapsto> calculate_engagement_momentum,
      ''urgency_signals'' \<mapsto> detect_urgency_signals content]"

definition urgency_multiplier :: "component_scores \<Rightarrow> real" where
  "urgency_multiplier scores = 1 + get_or scores ''urgency_signals'' 0 / 200"

definition calculate_ultra_final_score :: "component_scores \<Rightarrow> real" where
  "calculate_ultra_final_score scores =
     (let base_score = get_or scores ''semantic_similarity'' 50;
          ml_boost = get_or scores ''ensemble_prediction'' 50 * (3 / 10);
          behavioral_factor = get_or scores ''engagement_momentum'' 50 * (2 / 10);
          final_score = (base_score + ml_boost + behavioral_factor) * urgency_multiplier scores
      in min 100 (max 0 final_score))"

definition enterprise_classify :: "real \<Rightarrow> (string \<rightharpoonup> real) \<Rightarrow> tier \<times> priority" where
  "enterprise_classify score scores =
     (if score \<ge> 90 then (Platinum, Immediate)
      else if score \<ge> 80 then (Gold, High)
      else if score \<ge> 70 then (Silver, Medium)
      else if score \<ge> 60 then (Bronze, Low)
      else (Unqualified, NoPriority))"

section \<open>advanced_service_intelligence.py\<close>

text \<open>
  \<open>iteration_patterns\<close>: for each service key, the pattern names of all iterations and
  categories in the order the loops of \<open>_analyze_service_patterns\<close> visit them, each with
  its \<open>score_boost\<close> (0 where the entry has none, as \<open>pattern_info.get('score_boost', 0)\<close>).
\<close>

definition iteration_patterns :: "(string \<times> (string \<times> real) list) list" where
  "iteration_patterns =
   [(''drone_services'',
     [(''part_107_commercial'', 25), (''beyond_visual_line'', 30), (''night_operations'', 20),
      (''over_people_waiver'', 35),
      (''infrastructure_inspection'', 30), (''precision_agriculture'', 25),
      (''emergency_response'', 35), (''surveying_mapping'', 28), (''thermal_inspection'', 32),
      (''lidar_equipped'', 40), (''thermal_camera'', 35), (''multispectral_sensors'', 30),
      (''rtk_gps'', 25),
      (''faa_part_107'', 20), (''airspace_authorization'', 15), (''insurance_coverage'', 10),
      (''remote_id'', 8),
      (''real_estate_luxury'', 22), (''construction_progress'', 28), (''solar_inspection'', 30),
      (''oil_gas_pipeline'', 45), (''insurance_claims'', 35),
      (''emergency_response'', 0), (''insurance_deadline'', 0), (''weather_dependent'', 0),
      (''seasonal_work'', 0)]),
    (''manufacturing_services'',
     [(''high_precision_cnc'', 35), (''medical_device'', 40), (''aerospace_certified'', 45),
      (''automotive_tier1'', 38), (''electronics_assembly'', 30),
      (''nearshoring_mexico'', 25), (''vietnam_electronics'', 20), (''india_precision'', 22),
      (''us_reshoring'', 30),
      (''iso_9001'', 15), (''iso_13485_medical'', 35), (''as9100_aerospace'', 40),
      (''iatf_16949_auto'', 30), (''fda_compliant'', 38),
      (''prototype_development'', 25), (''small_batch'', 20), (''medium_production'', 30),
      (''high_volume'', 35),
      (''industry_4_0'', 30), (''additive_manufacturing'', 25), (''automation_robotics'', 28),
      (''ai_quality_control'', 35),
      (''carbon_neutral'', 20), (''circular_economy'', 18), (''renewable_energy'', 15),
      (''waste_reduction'', 12)]),
    (''video_editing_services'',
     [(''youtube_long_form'', 20), (''tiktok_shorts'', 25), (''instagram_reels'', 22),
      (''linkedin_content'', 18), (''podcast_video'', 28),
      (''educational_content'', 25), (''corporate_training'', 30), (''product_demos'', 28),
      (''testimonials'', 20), (''live_event_recap'', 35),
      (''motion_graphics'', 30), (''color_grading'', 25), (''audio_restoration'', 35),
      (''multi_camera_sync'', 28), (''vfx_compositing'', 40),
      (''premiere_pro'', 15), (''final_cut_pro'', 12), (''davinci_resolve'', 20),
      (''after_effects'', 25), (''avid_media'', 30),
      (''wedding_videography'', 25), (''corporate_events'', 30), (''documentary_production'', 35),
      (''commercial_advertising'', 40), (''streaming_content'', 28),
      (''same_day_turnaround'', 0), (''next_day_delivery'', 0), (''weekly_deadline'', 0),
      (''monthly_project'', 0)])]"

definition replace_underscore :: "string \<Rightarrow> string" where
  "replace_underscore s = map (\<lambda>c. if c = CHR ''_'' then CHR '' '' else c) s"

text \<open>The \<open>score_boost\<close> entry of \<open>_analyze_service_patterns\<close>.\<close>

definition analyze_service_patterns :: "string \<Rightarrow> string \<Rightarrow> real" where
  "analyze_service_patterns text service_type =
     (case map_of iteration_patterns service_type of
        None \<Rightarrow> 0
      | Some patterns \<Rightarrow>
          min (\<Sum>(pattern_name, boost)\<leftarrow>patterns.
                 if py_in (replace_underscore pattern_name) text then boost else 0) 50)"

definition urgency_multipliers :: "(real \<times> string list) list" where
  "urgency_multipliers =
     [(3, [''urgent'', ''asap'', ''emergency'', ''immediate'', ''rush'']),
      (2, [''deadline'', ''soon'', ''quickly'', ''priority'', ''time-sensitive'']),
      (15 / 10, [''prefer'', ''hoping'', ''looking for'', ''planning'']),
      (1, [''eventually'', ''future'', ''considering'', ''exploring''])]"

definition budget_indicators :: "(real \<times> string list) list" where
  "budget_indicators =
     [(25 / 10, [''budget allocated'', ''approved funding'', ''corporate budget'']),
      (2, [''investment ready'', ''serious budget'', ''substantial funding'']),
      (15 / 10, [''budget planning'', ''cost consideration'', ''price range'']),
      (1, [''tight budget'', ''cost-effective'', ''affordable''])]"

text \<open>
  The loops of \<open>_analyze_urgency_patterns\<close> and \<open>_analyze_budget_patterns\<close>: the running
  maximum of the multipliers of the levels with a keyword in the text, from \<open>start\<close>.
\<close>

definition max_multiplier :: "real \<Rightarrow> (real \<times> string list) list \<Rightarrow> string \<Rightarrow> real" where
  "max_multiplier start table text =
     foldl (\<lambda>acc (multiplier, keywords).
              foldl (\<lambda>acc keyword. if py_in keyword text then max acc multiplier else acc)
                    acc keywords)
           start table"

definition analyze_urgency_patterns :: "string \<Rightarrow> real" where
  "analyze_urgency_patterns text = max_multiplier 0 urgency_multipliers text"

definition analyze_budget_patterns :: "string \<Rightarrow> real" where
  "analyze_budget_patterns text = max_multiplier 1 budget_indicators text"

definition analyze_quality_patterns :: "string \<Rightarrow> real" where
  "analyze_quality_patterns text =
     (let high_intent = sum_if_in 1
            [''looking for'', ''need help with'', ''seeking'', ''require'', ''must have'',
             ''project starting'', ''deadline approaching'', ''budget approved'',
             ''ready to hire''] text;
          decision_authority = sum_if_in 1
            [''decision maker'', ''authorized to'', ''company owner'', ''project manager'',
             ''procurement'', ''sourcing manager'', ''buying for'', ''budget authority''] text;
          quality_requirements = sum_if_in 1
            [''professional quality'', ''high standards'', ''certified'', ''experienced'',
             ''proven track record'', ''references required'', ''portfolio review''] text;
          exclusions = sum_if_in 1
            [''just browsing'', ''maybe someday'', ''thinking about'', ''not sure if'',
             ''free advice'', ''volunteer work'', ''student project'', ''personal hobby''] text;
          positive_score = high_intent * (4 / 10) + decision_authority * (3 / 10)
                           + quality_requirements * (3 / 10);
          exclusion_penalty = exclusions * (2 / 10);
          quality_score = max (1 / 10) (positive_score - exclusion_penalty)
      in min quality_score 2)"

text \<open>The \<open>intelligence_score\<close> entry of \<open>analyze_service_intelligence\<close>.\<close>

definition analyze_service_intelligence :: "string \<Rightarrow> string \<Rightarrow> string \<Rightarrow> real" where
  "analyze_service_intelligence content title service_type =
     (let text = lower (title @ '' '' @ content);
          base_score = analyze_service_patterns text service_type;
          urgency_multiplier = analyze_urgency_patterns text;
          budget_multiplier = analyze_budget_patterns text;
          quality_modifier = analyze_quality_patterns text;
          intelligence_score = base_score * urgency_multiplier * budget_multiplier * quality_modifier
      in min intelligence_score 100)"

section \<open>advanced_lead_scoring_v3.py\<close>

text \<open>
  Whitespace as \<open>str.isspace\<close>, \<open>str.strip\<close>, \<open>str.split\<close> and the pattern \<open>\s\<close> see it
  below code point 256: 9 to 13, 28 to 32, 133 and 160.
\<close>

definition is_space :: "char \<Rightarrow> bool" where
  "is_space c =
     (let n = (of_char c :: nat)
      in (9 \<le> n \<and> n \<le> 13) \<or> (28 \<le> n \<and> n \<le> 32) \<or> n = 133 \<or> n = 160)"

definition strip :: "string \<Rightarrow> string" where
  "strip s = rev (dropWhile is_space (rev (dropWhile is_space s)))"

text \<open>\<open>re.sub(r'\s+', ' ', s)\<close>: each maximal run of whitespace becomes one space.\<close>

function collapse_ws :: "string \<Rightarrow> string" where
  "collapse_ws [] = []"
| "collapse_ws (c # cs) =
     (if is_space c then CHR '' '' # collapse_ws (dropWhile is_space cs)
      else c # collapse_ws cs)"
  by pat_completeness auto
termination
  by (relation "measure length") (auto simp: length_dropWhile_le le_imp_less_Suc)

text \<open>
  \<open>_generate_content_hash\<close>. \<open>md5 s\<close> stands for \<open>hashlib.md5(s.encode()).hexdigest()\<close>,
  a function of Python's library.
\<close>

definition generate_content_hash :: "(string \<Rightarrow> string) \<Rightarrow> string \<Rightarrow> string \<Rightarrow> string" where
  "generate_content_hash md5 content author =
     (let normalized = collapse_ws (lower (strip content));
          hash_input = author @ '':'' @ take 200 normalized
      in md5 hash_input)"

text \<open>A comment is a dict of strings, read with \<open>c.get('content', '')\<close>.\<close>

type_synonym comment = "string \<rightharpoonup> string"

definition creator_patterns :: "string list" where
  "creator_patterns =
     [''i help'', ''i helped'', ''consultant'', ''here's how'', ''my experience'',
      ''success story'', ''ama'', ''ask me anything'', ''sharing my'', ''tutorial'']"

definition enhanced_patterns :: "string list" where
  "enhanced_patterns =
     [''my journey'', ''lessons learned'', ''what i discovered'', ''my approach'',
      ''strategy that worked'', ''how i achieved'', ''my method'', ''tips from experience'']"

text \<open>The two counters of \<open>_detect_content_creator_v3\<close>, then the function itself.\<close>

definition advisor_matches :: "string \<Rightarrow> nat" where
  "advisor_matches text =
     length (filter (\<lambda>pattern. py_in pattern text) (creator_patterns @ enhanced_patterns))"

definition question_responses :: "comment list \<Rightarrow> nat" where
  "question_responses comments =
     length (filter (\<lambda>c. py_in ''?'' (get_or c ''content'' [])) comments)"

definition detect_content_creator_v3 :: "string \<Rightarrow> string \<Rightarrow> comment list \<Rightarrow> bool" where
  "detect_content_creator_v3 text title comments =
     (let strong_indicators = advisor_matches text;
          strong_indicators =
            (if comments \<noteq> [] \<and> question_responses comments > 3
             then strong_indicators + 2 else strong_indicators)
      in strong_indicators \<ge> 2)"

datatype v3_tier = Duplicate | Filtered | Burning | Hot | Warm | Cool | Cold

definition determine_basic_tier :: "real \<Rightarrow> v3_tier" where
  "determine_basic_tier score =
     (if score \<ge> 85 then Burning
      else if score \<ge> 70 then Hot
      else if score \<ge> 50 then Warm
      else if score \<ge> 30 then Cool
      else Cold)"

text \<open>
  What the sub-analyses of \<open>analyze_lead_v3\<close> return for the item, as far as the score,
  the tier and the qualification read them. They search the text with Python's \<open>re\<close>
  library and have no effect on the scorer's state.
\<close>

record v3_analysis =
  detected_service :: string
  service_score :: real
  budget_score :: real
  readiness_indicators :: bool
  authority_level :: string
  authority_score :: real
  urgency_level :: string
  urgency_score :: real
  technical_score :: real
  competitor_analysis :: real

definition determine_tier_v3 :: "real \<Rightarrow> v3_analysis \<Rightarrow> v3_tier" where
  "determine_tier_v3 score an =
     (let base_tier = determine_basic_tier score
      in if authority_level an = ''owner'' \<and> score \<ge> 60 then Burning
         else if authority_level an = ''executive'' \<and> score \<ge> 70 then Hot
         else if readiness_indicators an \<and> score \<ge> 55 \<and> base_tier \<in> {Warm, Cool} then Hot
         else base_tier)"

record v3_result =
  lead_score :: real
  tier :: v3_tier
  is_qualified :: bool

text \<open>The part of \<open>analyze_lead_v3\<close> after the two early returns.\<close>

definition score_lead_v3 :: "v3_analysis \<Rightarrow> v3_result" where
  "score_lead_v3 an =
     (let base_score = 0;
          base_score = base_score + service_score an * (30 / 100);
          base_score = base_score + budget_score an * (25 / 100);
          base_score = base_score + authority_score an * (20 / 100);
          base_score = base_score + urgency_score an * (15 / 100);
          base_score = base_score + technical_score an * (10 / 100);
          base_score = base_score + competitor_analysis an * (5 / 100);
          base_score =
            (if detected_service an \<in> set [''social_media'', ''video_editing'', ''drone_services'']
             then base_score + 5 else base_score);
          final_score = min 100 (max 0 base_score)
      in \<lparr>lead_score = final_score,
          tier = determine_tier_v3 final_score an,
          is_qualified = (final_score \<ge> 40 \<and> authority_level an \<noteq> ''employee''
                          \<and> urgency_level an \<noteq> ''low'')\<rparr>)"

text \<open>
  \<open>analyze_lead_v3\<close>, with the set \<open>seen_content_hashes\<close> of the scorer passed in and
  returned.
\<close>

definition analyze_lead_v3 ::
  "(string \<Rightarrow> string) \<Rightarrow> v3_analysis \<Rightarrow> string set \<Rightarrow> string \<Rightarrow> string \<Rightarrow> string
     \<Rightarrow> comment list \<Rightarrow> v3_result \<times> string set" where
  "analyze_lead_v3 md5 an seen_content_hashes content title author comments =
     (let full_text = lower (title @ '' '' @ content);
          content_hash = generate_content_hash md5 full_text author
      in if content_hash \<in> seen_content_hashes
         then (\<lparr>lead_score = 0, tier = Duplicate, is_qualified = False\<rparr>, seen_content_hashes)
         else if detect_content_creator_v3 full_text title comments
         then (\<lparr>lead_score = 3, tier = Filtered, is_qualified = False\<rparr>,
               insert content_hash seen_content_hashes)
         else (score_lead_v3 an, insert content_hash seen_content_hashes))"

section \<open>optimized_lead_finder.py\<close>

text \<open>
  A prospect or lead dict. The source reads it with \<open>d.get(key, default)\<close> only, so each
  field holds what that call returns (\<open>''\<close> or 0 when the key is absent). A lead is the
  prospect updated with the scoring keys, as \<open>{**prospect, 'lead_score': ..., ...}\<close>.
  \<open>extra\<close> holds the numeric keys the finder never reads.
\<close>

record prospect =
  content :: string
  title :: string
  author :: string
  source_subreddit :: string
  subreddit :: string
  score :: int
  lead_score :: real
  base_score :: real
  urgency_boost :: real
  budget_boost :: real
  intelligence_boost :: real
  classification_tier :: "tier option"
  priority_level :: "priority option"
  extra :: "string \<rightharpoonup> real"

record service_config =
  urgency_patterns :: "string list"
  budget_patterns :: "string list"
  min_score :: real
  target_tiers :: "tier list"

text \<open>\<open>service_map\<close>, without the subreddit and search-term lists that scoring never reads.\<close>

definition service_map :: "(string \<times> service_config) list" where
  "service_map =
   [(''manufacturing & sourcing'',
     \<lparr>urgency_patterns =
        [''urgent manufacturing needed'', ''production crisis'', ''supplier failure emergency'',
         ''rush manufacturing order'', ''immediate production capacity'',
         ''time-critical manufacturing'', ''supply chain disruption'',
         ''manufacturing deadline pressure'', ''urgent supplier qualification''],
      budget_patterns =
        [''manufacturing investment budget'', ''production cost optimization'',
         ''tooling budget allocation'', ''contract manufacturing pricing'',
         ''supply chain budget'', ''quality system investment'', ''automation investment'',
         ''manufacturing capex'', ''production volume pricing''],
      min_score = 30, target_tiers = [Platinum, Gold]\<rparr>),
    (''import/export business'',
     \<lparr>urgency_patterns =
        [''urgent sourcing'', ''need supplier asap'', ''rush sample'', ''shipping deadline''],
      budget_patterns = [''sourcing budget'', ''import cost'', ''shipping cost'', ''MOQ pricing''],
      min_score = 55, target_tiers = [Platinum, Gold, Silver]\<rparr>),
    (''website development'',
     \<lparr>urgency_patterns =
        [''need website asap'', ''website launch next week'', ''business opening soon'',
         ''website down'', ''urgent website help'', ''deadline approaching''],
      budget_patterns =
        [''website budget'', ''affordable website'', ''website cost'', ''web development budget'',
         ''professional website investment'', ''website pricing''],
      min_score = 15, target_tiers = [Platinum, Gold, Silver]\<rparr>),
    (''e-commerce products'',
     \<lparr>urgency_patterns =
        [''launch deadline'', ''urgent optimization'', ''sales dropping'', ''competition pressure''],
      budget_patterns =
        [''marketing budget'', ''advertising spend'', ''inventory investment'', ''store setup cost''],
      min_score = 45, target_tiers = [Platinum, Gold, Silver, Bronze]\<rparr>),
    (''digital marketing services'',
     \<lparr>urgency_patterns =
        [''marketing crisis'', ''launch campaign'', ''urgent optimization'', ''competitor threat''],
      budget_patterns =
        [''marketing budget'', ''ad spend'', ''customer acquisition cost'', ''ROI target''],
      min_score = 40, target_tiers = [Platinum, Gold, Silver, Bronze]\<rparr>),
    (''web development'',
     \<lparr>urgency_patterns =
        [''urgent development'', ''website down'', ''launch deadline'', ''critical bug''],
      budget_patterns = [''development budget'', ''project cost'', ''hourly rate'', ''fixed price''],
      min_score = 50, target_tiers = [Platinum, Gold, Silver]\<rparr>),
    (''consulting services'',
     \<lparr>urgency_patterns =
        [''urgent consultation'', ''crisis management'', ''immediate advice'', ''emergency planning''],
      budget_patterns =
        [''consulting budget'', ''advisor fee'', ''retainer cost'', ''project investment''],
      min_score = 55, target_tiers = [Platinum, Gold, Silver]\<rparr>),
    (''software solutions'',
     \<lparr>urgency_patterns =
        [''urgent software'', ''system failure'', ''automation needed'', ''efficiency crisis''],
      budget_patterns =
        [''software budget'', ''development cost'', ''licensing fee'', ''implementation cost''],
      min_score = 50, target_tiers = [Platinum, Gold, Silver]\<rparr>),
    (''business automation'',
     \<lparr>urgency_patterns =
        [''efficiency crisis'', ''urgent automation'', ''process breakdown'', ''scaling pressure''],
      budget_patterns =
        [''automation budget'', ''efficiency investment'', ''time savings value'',
         ''ROI calculation''],
      min_score = 45, target_tiers = [Platinum, Gold, Silver, Bronze]\<rparr>),
    (''social media posting'',
     \<lparr>urgency_patterns =
        [''content emergency'', ''posting deadline'', ''engagement dropping'', ''algorithm penalty''],
      budget_patterns =
        [''content budget'', ''creator fee'', ''promotion budget'', ''collaboration cost''],
      min_score = 15, target_tiers = [Platinum, Gold, Silver, Bronze]\<rparr>),
    (''video editing'',
     \<lparr>urgency_patterns =
        [''urgent video editing needed'', ''same-day video turnaround'',
         ''deadline tomorrow editing'', ''wedding this weekend editing'',
         ''live event editing rush'', ''client presentation deadline'',
         ''youtube upload schedule pressure'', ''campaign launch video deadline'',
         ''festival submission deadline'', ''broadcast deadline editing'',
         ''social media posting urgency'', ''product launch video rush''],
      budget_patterns =
        [''video editing budget allocated'', ''per-minute editing rate'', ''rush editing premium'',
         ''ongoing editing retainer'', ''bulk video editing discount'', ''corporate video budget'',
         ''wedding videography investment'', ''content creation budget'',
         ''marketing video spend'', ''production company rates'', ''freelance editor budget'',
         ''editing service pricing''],
      min_score = 20, target_tiers = [Platinum, Gold, Silver]\<rparr>),
    (''selling/trading drones'',
     \<lparr>urgency_patterns =
        [''urgent inspection needed'', ''emergency drone services'', ''time-sensitive surveying'',
         ''weather window closing'', ''project deadline drone'', ''immediate aerial coverage'',
         ''equipment failure inspection'', ''safety compliance deadline'',
         ''insurance claim inspection''],
      budget_patterns =
        [''commercial drone budget'', ''inspection service pricing'', ''aerial survey cost'',
         ''drone service investment'', ''part 107 certification cost'',
         ''equipment insurance budget'', ''fleet management pricing'', ''thermal camera rental'',
         ''inspection contract value''],
      min_score = 25, target_tiers = [Platinum, Gold, Silver]\<rparr>)]"

text \<open>\<open>str.split()\<close>: the maximal runs of non-whitespace characters.\<close>

fun split_from :: "string \<Rightarrow> string \<Rightarrow> string list" where
  "split_from word [] = (if word = [] then [] else [word])"
| "split_from word (c # cs) =
     (if is_space c then (if word = [] then split_from [] cs else word # split_from [] cs)
      else split_from (word @ [c]) cs)"

definition split :: "string \<Rightarrow> string list" where
  "split s = split_from [] s"

definition tier_name :: "tier \<Rightarrow> string" where
  "tier_name t =
     (case t of Platinum \<Rightarrow> ''Platinum'' | Gold \<Rightarrow> ''Gold'' | Silver \<Rightarrow> ''Silver''
      | Bronze \<Rightarrow> ''Bronze'' | Unqualified \<Rightarrow> ''Unqualified'')"

text \<open>The variable \<open>content\<close> of \<open>_fast_prefilter\<close>: content, a space and the title, lowercased.\<close>

definition combined_text :: "prospect \<Rightarrow> string" where
  "combined_text p = lower (content p @ '' '' @ title p)"

definition business_terms :: "string set" where
  "business_terms =
     {''need'', ''looking'', ''help'', ''service'', ''business'', ''urgent'', ''budget'', ''cost''}"

text \<open>The body of the loop of \<open>_fast_prefilter\<close>: whether the prospect is appended.\<close>

definition prefilter_keeps :: "string set \<Rightarrow> prospect \<Rightarrow> bool" where
  "prefilter_keeps service_words p =
     (let text = combined_text p
      in if length text < 15 \<or> text \<in> set [''[deleted]'', ''[removed]'', '''']
         then False
         else (let content_words = set (split text)
               in service_words \<inter> content_words \<noteq> {}
                  \<or> business_terms \<inter> content_words \<noteq> {}))"

definition fast_prefilter :: "prospect list \<Rightarrow> string \<Rightarrow> prospect list" where
  "fast_prefilter prospects service_description =
     (let service_words = set (split (lower service_description))
      in filter (prefilter_keeps service_words) prospects)"

definition detect_urgency :: "string \<Rightarrow> string \<Rightarrow> service_config \<Rightarrow> real" where
  "detect_urgency content' title' cfg =
     (let text = lower (content' @ '' '' @ title');
          boost = (\<Sum>pattern\<leftarrow>urgency_patterns cfg. if py_in (lower pattern) text then 5 else 0);
          general_urgent =
            [''urgent'', ''asap'', ''immediately'', ''rush'', ''deadline'', ''emergency''];
          boost = boost + sum_if_in 3 general_urgent text
      in min boost 15)"

definition detect_budget_signals :: "string \<Rightarrow> string \<Rightarrow> service_config \<Rightarrow> real" where
  "detect_budget_signals content' title' cfg =
     (let text = lower (content' @ '' '' @ title');
          boost = (\<Sum>pattern\<leftarrow>budget_patterns cfg. if py_in (lower pattern) text then 4 else 0);
          budget_terms =
            [''budget'', ''cost'', ''price'', ''investment'', ''spend'', ''fee'', ''rate''];
          boost = boost + sum_if_in 2 budget_terms text
      in min boost 12)"

text \<open>
  \<open>ultra_score_lead\<close> of rapid_iteration_engine.py: the entries \<open>ultra_score\<close> and
  \<open>classification\<close> of its result.
\<close>

definition ultra_score_lead :: "string \<Rightarrow> string \<Rightarrow> real \<times> tier \<times> priority" where
  "ultra_score_lead content' title' =
     (let scores = ultra_component_scores content' title';
          final_score = calculate_ultra_final_score scores
      in (final_score, enterprise_classify final_score scores))"

text \<open>
  The body of the loop of \<open>_score_leads_adaptively\<close>: the lead that is appended, if one is.
\<close>

definition score_prospect :: "string \<Rightarrow> service_config \<Rightarrow> prospect \<Rightarrow> prospect option" where
  "score_prospect service_type cfg p =
     (let content' = content p;
          title' = title p;
          author' = author p;
          subreddit' = source_subreddit p;
          intelligence_score = analyze_service_intelligence content' title' service_type;
          urgency_boost' = detect_urgency content' title' cfg;
          budget_boost' = detect_budget_signals content' title' cfg;
          intelligence_boost' = intelligence_score * (5 / 10);
          (ultra_score, tier', priority') = ultra_score_lead content' title';
          final_score = ultra_score + urgency_boost' + budget_boost' + intelligence_boost';
          score_threshold = max 20 (min_score cfg * (6 / 10));
          tier_qualified = (tier' \<in> set (target_tiers cfg) \<or> tier_name tier' \<noteq> ''None'')
      in if final_score \<ge> score_threshold \<and> tier_qualified
         then Some (p\<lparr>lead_score := final_score,
                      base_score := ultra_score,
                      urgency_boost := urgency_boost',
                      budget_boost := budget_boost',
                      intelligence_boost := intelligence_boost',
                      classification_tier := Some tier',
                      priority_level := Some priority',
                      author := author',
                      subreddit := subreddit',
                      content := take 500 content'\<rparr>)
         else None)"

text \<open>
  \<open>_score_leads_adaptively\<close>. The fallback key is a key of \<open>service_map\<close>, so the lookup
  after it finds a configuration.
\<close>

definition score_leads_adaptively :: "prospect list \<Rightarrow> string \<Rightarrow> string \<Rightarrow> prospect list" where
  "score_leads_adaptively prospects service_type service_description =
     (let service_type' =
            (if map_of service_map service_type = None then ''manufacturing & sourcing''
             else service_type)
      in case map_of service_map service_type' of
           None \<Rightarrow> []
         | Some cfg \<Rightarrow>
             List.map_filter (score_prospect service_type' cfg)
               (fast_prefilter prospects service_description))"

text \<open>The sort key of \<open>_rank_and_optimize\<close>; tuples compare lexicographically.\<close>

definition rank_key :: "prospect \<Rightarrow> real \<times> real \<times> real \<times> int" where
  "rank_key x = (lead_score x, urgency_boost x, budget_boost x, score x)"

text \<open>
  \<open>leads.sort(key=..., reverse=True)\<close>: a stable sort in descending order, which is the
  reverse of the stable ascending sort of the reversed list.
\<close>

definition sort_reverse :: "prospect list \<Rightarrow> prospect list" where
  "sort_reverse leads = rev (sort_key rank_key (rev leads))"

text \<open>The loop of \<open>_rank_and_optimize\<close> over the sorted leads.\<close>

fun unique_authors :: "int \<Rightarrow> string set \<Rightarrow> prospect list \<Rightarrow> prospect list \<Rightarrow> prospect list" where
  "unique_authors max_results seen_authors final_leads [] = final_leads"
| "unique_authors max_results seen_authors final_leads (lead # leads) =
     (if author lead \<notin> seen_authors \<and> int (length final_leads) < max_results
      then unique_authors max_results (insert (author lead) seen_authors)
             (final_leads @ [lead]) leads
      else unique_authors max_results seen_authors final_leads leads)"

definition rank_and_optimize :: "prospect list \<Rightarrow> int \<Rightarrow> prospect list" where
  "rank_and_optimize leads max_results = unique_authors max_results {} [] (sort_reverse leads)"



section \<open>Helper lemmas\<close>

lemma sum_if_in_bounds:
  assumes "0 \<le> v"
  shows "0 \<le> sum_if_in v xs text \<and> sum_if_in v xs text \<le> v * real (length xs)"
  unfolding sum_if_in_def using assms
  by (induction xs) (auto simp: algebra_simps)

lemma detect_urgency_signals_range:
  "0 \<le> detect_urgency_signals c \<and> detect_urgency_signals c \<le> 100"
  using sum_if_in_bounds [of 20]
  by (simp add: detect_urgency_signals_def Let_def)

lemma determine_tier_v3_not_duplicate: "determine_tier_v3 x an \<noteq> Duplicate"
  by (simp add: determine_tier_v3_def determine_basic_tier_def Let_def)

lemma score_lead_v3_not_duplicate: "v3_result.tier (score_lead_v3 an) \<noteq> Duplicate"
  by (simp add: score_lead_v3_def Let_def determine_tier_v3_not_duplicate)


lemma unique_authors_set:
  "set (unique_authors m seen final leads) \<subseteq> set final \<union> set leads"
proof (induction leads arbitrary: final seen)
  case Nil
  then show ?case by simp
next
  case (Cons l ls)
  show ?case
    using Cons.IH [of seen final] Cons.IH [of "insert (author l) seen" "final @ [l]"]
    by auto
qed

lemma unique_authors_distinct:
  "distinct (map author final) \<Longrightarrow> author ` set final \<subseteq> seen
   \<Longrightarrow> distinct (map author (unique_authors m seen final leads))"
proof (induction leads arbitrary: final seen)
  case Nil
  then show ?case by simp
next
  case (Cons l ls)
  show ?case
  proof (cases "author l \<notin> seen \<and> int (length final) < m")
    case True
    then have d: "distinct (map author (final @ [l]))"
      using Cons.prems by auto
    have s: "author ` set (final @ [l]) \<subseteq> insert (author l) seen"
      using Cons.prems by auto
    show ?thesis using True Cons.IH [OF d s] by simp
  next
    case False
    then show ?thesis using Cons.IH [OF Cons.prems] by auto
  qed
qed

lemma unique_authors_length:
  "int (length (unique_authors m seen final leads)) \<le> max (int (length final)) m"
proof (induction leads arbitrary: final seen)
  case Nil
  then show ?case by simp
next
  case (Cons l ls)
  show ?case
    using Cons.IH [of seen final] Cons.IH [of "insert (author l) seen" "final @ [l]"]
    by (auto simp: max_def split: if_splits)
qed


lemma sort_reverse_set: "set (sort_reverse leads) = set leads"
  by (simp add: sort_reverse_def)

lemma find_append_left:
  "List.find P xs = Some x \<Longrightarrow> List.find P (xs @ ys) = Some x"
  by (induction xs) (auto split: if_splits)

lemma find_append_right:
  "\<forall>x\<in>set xs. \<not> P x \<Longrightarrow> List.find P (xs @ ys) = List.find P ys"
  by (induction xs) auto

lemma unique_authors_first:
  assumes "\<forall>l\<in>set final. List.find (\<lambda>x. author x = author l) pre = Some l"
    and "int (length final) < m \<longrightarrow> author ` set pre \<subseteq> seen"
  shows "\<forall>l\<in>set (unique_authors m seen final leads).
           List.find (\<lambda>x. author x = author l) (pre @ leads) = Some l"
  using assms
proof (induction leads arbitrary: final seen pre)
  case Nil
  then show ?case by simp
next
  case (Cons l ls)
  have old: "\<forall>k\<in>set final. List.find (\<lambda>x. author x = author k) (pre @ [l]) = Some k"
    using Cons.prems(1) by (simp add: find_append_left)
  show ?case
  proof (cases "author l \<notin> seen \<and> int (length final) < m")
    case True
    then have none: "\<forall>x\<in>set pre. \<not> author x = author l"
      using Cons.prems(2) by auto
    have new: "List.find (\<lambda>x. author x = author l) (pre @ [l]) = Some l"
      using find_append_right [OF none, of "[l]"] by simp
    have 1: "\<forall>k\<in>set (final @ [l]). List.find (\<lambda>x. author x = author k) (pre @ [l]) = Some k"
      using old new by simp
    have 2: "int (length (final @ [l])) < m \<longrightarrow> author ` set (pre @ [l]) \<subseteq> insert (author l) seen"
      using True Cons.prems(2) by auto
    show ?thesis using True Cons.IH [OF 1 2] by simp
  next
    case False
    have 2: "int (length final) < m \<longrightarrow> author ` set (pre @ [l]) \<subseteq> seen"
      using False Cons.prems(2) by auto
    show ?thesis using False Cons.IH [OF old 2] by auto
  qed
qed











section \<open>Claims\<close>

text \<open>
  C5. For a rule with positive weight, the contribution at two matches is strictly larger
  than at one match and strictly smaller than twice the contribution at one match.
\<close>

theorem rule_contribution_diminishing:
  assumes "0 < weight"
  shows "rule_contribution weight 1 < rule_contribution weight 2
         \<and> rule_contribution weight 2 < 2 * rule_contribution weight 1"
  using assms by (simp add: rule_contribution_def)

theorem rule_contribution_diminishing_witness:
  "(0::real) < 5 \<and> rule_contribution 5 1 < rule_contribution 5 2
   \<and> rule_contribution 5 2 < 2 * rule_contribution 5 1"
  using rule_contribution_diminishing [of 5] by simp

text \<open>
  C7. The urgency multiplier of the final score, one plus the urgency-signal score over
  200, lies between 1 and 1.5 for every content and title, the urgency-signal score being
  capped at 100.
\<close>

theorem urgency_multiplier_bounded:
  "1 \<le> urgency_multiplier (ultra_component_scores c t)
   \<and> urgency_multiplier (ultra_component_scores c t) \<le> 3 / 2"
  using detect_urgency_signals_range [of c]
  by (simp add: urgency_multiplier_def ultra_component_scores_def get_or_def)

text \<open>
  C9. The penalty score is added to the weighted sum as it is, whatever its value: the
  composite is the sum of the weighted dimensions, the bonuses and the penalty, floored at
  0 only at the end.
\<close>

theorem penalty_added_as_is:
  "calculate_weighted_composite (s\<lparr>negative := n\<rparr>) cb es sr =
     max 0 (urgency s * (20 / 100) + budget s * (30 / 100) + authority s * (25 / 100)
            + quality s * (15 / 100) + business_context s * (10 / 100)
            + cb * (5 / 10) + es * (3 / 10) + sr * (4 / 10) + n)
   \<and> 0 \<le> calculate_weighted_composite (s\<lparr>negative := n\<rparr>) cb es sr"
  by (simp add: calculate_weighted_composite_def Let_def)

text \<open>
  C2, as amended. \<open>_determine_tier\<close> follows the gated table, first match wins: Platinum
  needs a composite of 90, a budget score of 15 and an authority score of 12, and a
  composite of 92 with budget 2 and authority 2 is Bronze. \<open>_enterprise_classify\<close>, the
  classifier of the optimized pipeline, reads the score alone: 90 and more is Platinum.
\<close>

theorem tier_gating:
  "(determine_tier c s = Platinum \<longleftrightarrow> c \<ge> 90 \<and> budget s \<ge> 15 \<and> authority s \<ge> 12)
   \<and> (determine_tier c s = Gold \<longleftrightarrow>
        \<not> (c \<ge> 90 \<and> budget s \<ge> 15 \<and> authority s \<ge> 12) \<and> c \<ge> 80 \<and> budget s \<ge> 10)
   \<and> (determine_tier c s = Silver \<longleftrightarrow>
        \<not> (c \<ge> 80 \<and> budget s \<ge> 10) \<and> c \<ge> 70 \<and> budget s \<ge> 5)
   \<and> (determine_tier c s = Bronze \<longleftrightarrow>
        \<not> (c \<ge> 90 \<and> budget s \<ge> 15 \<and> authority s \<ge> 12) \<and> \<not> (c \<ge> 80 \<and> budget s \<ge> 10)
        \<and> \<not> (c \<ge> 70 \<and> budget s \<ge> 5) \<and> c \<ge> 60)
   \<and> (budget s = 2 \<and> authority s = 2 \<longrightarrow> determine_tier 92 s = Bronze)
   \<and> (fst (enterprise_classify c cs) = Platinum \<longleftrightarrow> c \<ge> 90)"
  by (auto simp: determine_tier_def enterprise_classify_def)

theorem tier_gating_witness:
  "budget \<lparr>urgency = 0, budget = 2, authority = 2, quality = 0, negative = 0,
           business_context = 0\<rparr> = 2
   \<and> determine_tier 92 \<lparr>urgency = 0, budget = 2, authority = 2, quality = 0, negative = 0,
                         business_context = 0\<rparr> = Bronze"
  using tier_gating [where s = "\<lparr>urgency = 0, budget = 2, authority = 2, quality = 0,
                                 negative = 0, business_context = 0\<rparr>"]
  by simp

text \<open>
  C2 as stated fails on \<open>_enterprise_classify\<close>: a score of 92 is Platinum there, with a
  budget score of 2 and an authority score of 2 in the score map.
\<close>

theorem enterprise_classify_ungated:
  "fst (enterprise_classify 92 [''budget'' \<mapsto> 2, ''authority'' \<mapsto> 2]) = Platinum"
  by (simp add: enterprise_classify_def)

text \<open>
  C3, as amended. An item whose fingerprint is new to the scorer and whose lowercased
  title and content contain two advisor patterns, or that has more than three comments
  with a question mark, gets the fixed result: score 3, tier Filtered, not qualified,
  whatever the sub-analyses would return; its fingerprint is recorded. The detector adds 2
  to the number of patterns found when more than three comments contain a question mark,
  and answers whether the total reaches 2.
\<close>

theorem creator_short_circuit:
  assumes "generate_content_hash md5 (lower (t @ '' '' @ c)) a \<notin> seen"
    and "2 \<le> advisor_matches (lower (t @ '' '' @ c)) \<or> 3 < question_responses cms"
  shows "analyze_lead_v3 md5 an seen c t a cms =
           (\<lparr>v3_result.lead_score = 3, tier = Filtered, is_qualified = False\<rparr>,
            insert (generate_content_hash md5 (lower (t @ '' '' @ c)) a) seen)
         \<and> (detect_content_creator_v3 txt t cms \<longleftrightarrow>
              2 \<le> advisor_matches txt + (if 3 < question_responses cms then 2 else 0))"
proof -
  have d: "detect_content_creator_v3 x t cms \<longleftrightarrow>
             2 \<le> advisor_matches x + (if 3 < question_responses cms then 2 else 0)" for x
    by (cases cms) (auto simp: detect_content_creator_v3_def Let_def question_responses_def)
  from assms(2) have "detect_content_creator_v3 (lower (t @ '' '' @ c)) t cms"
    unfolding d by auto
  with assms(1) d show ?thesis
    by (simp add: analyze_lead_v3_def Let_def)
qed

theorem creator_short_circuit_witness:
  "generate_content_hash id (lower (''my journey ama'' @ '' '' @ ''lessons learned'')) ''ann'' \<notin> {}
   \<and> 2 \<le> advisor_matches (lower (''my journey ama'' @ '' '' @ ''lessons learned''))
   \<and> fst (analyze_lead_v3 id
        \<lparr>detected_service = ''manufacturing'', service_score = 50, budget_score = 100,
          readiness_indicators = True, authority_level = ''owner'', authority_score = 100,
          urgency_level = ''immediate'', urgency_score = 95, technical_score = 60,
          competitor_analysis = 0\<rparr>
        {} ''lessons learned'' ''my journey ama'' ''ann'' [])
       = \<lparr>v3_result.lead_score = 3, tier = Filtered, is_qualified = False\<rparr>"
proof -
  have m: "2 \<le> advisor_matches (lower (''my journey ama'' @ '' '' @ ''lessons learned''))"
    by code_simp
  show ?thesis
    using m creator_short_circuit [of id "''my journey ama''" "''lessons learned''" "''ann''" "{}" "[]"]
    by simp
qed

text \<open>
  C3 as stated fails on an item scored before: the duplicate check comes first, and the
  second scoring of an advisor post is a Duplicate with score 0, not Filtered.
\<close>

theorem creator_duplicate_not_filtered:
  "2 \<le> advisor_matches (lower (''my journey ama'' @ '' '' @ ''lessons learned''))
   \<and> fst (analyze_lead_v3 id
        \<lparr>detected_service = ''manufacturing'', service_score = 50, budget_score = 100,
          readiness_indicators = True, authority_level = ''owner'', authority_score = 100,
          urgency_level = ''immediate'', urgency_score = 95, technical_score = 60,
          competitor_analysis = 0\<rparr>
        (snd (analyze_lead_v3 id
          \<lparr>detected_service = ''manufacturing'', service_score = 50, budget_score = 100,
            readiness_indicators = True, authority_level = ''owner'', authority_score = 100,
            urgency_level = ''immediate'', urgency_score = 95, technical_score = 60,
            competitor_analysis = 0\<rparr>
          {} ''lessons learned'' ''my journey ama'' ''ann'' []))
        ''lessons learned'' ''my journey ama'' ''ann'' [])
       = \<lparr>v3_result.lead_score = 0, tier = Duplicate, is_qualified = False\<rparr>"
proof -
  have m: "2 \<le> advisor_matches (lower (''my journey ama'' @ '' '' @ ''lessons learned''))"
    by code_simp
  show ?thesis using m by (simp add: analyze_lead_v3_def Let_def)
qed

text \<open>
  C4. The fingerprint is the digest of the author, a colon and the first 200 characters
  of the stripped, lowercased, whitespace-collapsed text. An item with a new fingerprint is
  not reported as a duplicate; a later item of the same author whose normalised text has
  the same first 200 characters (the same item again, or one with another ending) is a
  Duplicate with score 0.
\<close>

theorem dedup_same_fingerprint:
  assumes fresh: "generate_content_hash md5 (lower (t @ '' '' @ c)) a \<notin> seen"
    and same: "take 200 (collapse_ws (lower (strip (lower (t' @ '' '' @ c')))))
               = take 200 (collapse_ws (lower (strip (lower (t @ '' '' @ c)))))"
  shows "generate_content_hash md5 x a = md5 (a @ '':'' @ take 200 (collapse_ws (lower (strip x))))
   \<and> v3_result.tier (fst (analyze_lead_v3 md5 an seen c t a cms)) \<noteq> Duplicate
   \<and> fst (analyze_lead_v3 md5 an' (snd (analyze_lead_v3 md5 an seen c t a cms)) c' t' a cms')
       = \<lparr>v3_result.lead_score = 0, tier = Duplicate, is_qualified = False\<rparr>"
proof -
  have h: "generate_content_hash md5 (lower (t' @ '' '' @ c')) a
           = generate_content_hash md5 (lower (t @ '' '' @ c)) a"
    using same by (simp add: generate_content_hash_def Let_def)
  have 1: "generate_content_hash md5 x a = md5 (a @ '':'' @ take 200 (collapse_ws (lower (strip x))))"
    by (simp add: generate_content_hash_def Let_def)
  have 2: "v3_result.tier (fst (analyze_lead_v3 md5 an seen c t a cms)) \<noteq> Duplicate"
    using fresh by (simp add: analyze_lead_v3_def Let_def score_lead_v3_not_duplicate)
  have 3: "generate_content_hash md5 (lower (t @ '' '' @ c)) a
             \<in> snd (analyze_lead_v3 md5 an seen c t a cms)"
    by (simp add: analyze_lead_v3_def Let_def)
  have 4: "fst (analyze_lead_v3 md5 an' (snd (analyze_lead_v3 md5 an seen c t a cms)) c' t' a cms')
       = \<lparr>v3_result.lead_score = 0, tier = Duplicate, is_qualified = False\<rparr>"
    using 3 h by (simp add: analyze_lead_v3_def [of md5 an' _ c' t' a cms'] Let_def)
  from 1 2 4 show ?thesis by blast
qed

theorem dedup_same_fingerprint_witness:
  "generate_content_hash id (lower (''need supplier'' @ '' '' @ (replicate 200 CHR ''a'' @ ''x''))) ''bob'' \<notin> {}
   \<and> take 200 (collapse_ws (lower (strip (lower (''need supplier'' @ '' '' @ (replicate 200 CHR ''a'' @ ''y''))))))
     = take 200 (collapse_ws (lower (strip (lower (''need supplier'' @ '' '' @ (replicate 200 CHR ''a'' @ ''x''))))))
   \<and> replicate 200 CHR ''a'' @ ''y'' \<noteq> replicate 200 CHR ''a'' @ ''x''
   \<and> v3_result.tier (fst (analyze_lead_v3 id
        \<lparr>detected_service = ''manufacturing'', service_score = 50, budget_score = 0,
          readiness_indicators = False, authority_level = ''unknown'', authority_score = 0,
          urgency_level = ''medium'', urgency_score = 60, technical_score = 60,
          competitor_analysis = 0\<rparr>
        {} (replicate 200 CHR ''a'' @ ''x'') ''need supplier'' ''bob'' [])) \<noteq> Duplicate
   \<and> fst (analyze_lead_v3 id
        \<lparr>detected_service = ''manufacturing'', service_score = 50, budget_score = 0,
          readiness_indicators = False, authority_level = ''unknown'', authority_score = 0,
          urgency_level = ''medium'', urgency_score = 60, technical_score = 60,
          competitor_analysis = 0\<rparr>
        (snd (analyze_lead_v3 id
          \<lparr>detected_service = ''manufacturing'', service_score = 50, budget_score = 0,
            readiness_indicators = False, authority_level = ''unknown'', authority_score = 0,
            urgency_level = ''medium'', urgency_score = 60, technical_score = 60,
            competitor_analysis = 0\<rparr>
          {} (replicate 200 CHR ''a'' @ ''x'') ''need supplier'' ''bob'' []))
        (replicate 200 CHR ''a'' @ ''y'') ''need supplier'' ''bob'' [])
       = \<lparr>v3_result.lead_score = 0, tier = Duplicate, is_qualified = False\<rparr>"
proof -
  have same: "take 200 (collapse_ws (lower (strip (lower (''need supplier'' @ '' '' @ (replicate 200 CHR ''a'' @ ''y''))))))
     = take 200 (collapse_ws (lower (strip (lower (''need supplier'' @ '' '' @ (replicate 200 CHR ''a'' @ ''x''))))))"
    by code_simp
  have ne: "replicate 200 CHR ''a'' @ ''y'' \<noteq> replicate 200 CHR ''a'' @ ''x''"
    by simp
  have fresh: "generate_content_hash id (lower (''need supplier'' @ '' '' @ (replicate 200 CHR ''a'' @ ''x''))) ''bob'' \<notin> {}"
    by simp
  show ?thesis
    using same ne dedup_same_fingerprint [OF fresh same, where cms = "[]" and cms' = "[]"]
    by blast
qed

text \<open>
  C1. The failing input of the claim: a post whose content is
  "factory supplier wholesale urgent", scored for the service "manufacturing & sourcing".
  The ultra score is clamped at 100, the urgency boost of 3 is added after the clamp, and
  the lead that is returned carries the lead score 103.
\<close>

theorem lead_score_above_100:
  "map lead_score (score_leads_adaptively
       [\<lparr>content = ''factory supplier wholesale urgent'', title = [], author = ''bob'',
         source_subreddit = ''manufacturing'', subreddit = [], score = 1, lead_score = 0,
         base_score = 0, urgency_boost = 0, budget_boost = 0, intelligence_boost = 0,
         classification_tier = None, priority_level = None, extra = Map.empty\<rparr>]
       ''manufacturing & sourcing'' ''sourcing agent'')
   = [103]"
  by code_simp




text \<open>
  C8, as amended. A prospect that passes the prefilter is one of the input, its combined
  lowercased text (content, a space, title) has at least 15 characters, and one of its
  words is a word of the lowercased service description or a generic business term: a
  prospect with a shorter text, or with no such word, is rejected.
\<close>

theorem fast_prefilter_keeps:
  assumes "p \<in> set (fast_prefilter ps sd)"
  shows "p \<in> set ps \<and> 15 \<le> length (combined_text p)
     \<and> (set (split (lower sd)) \<inter> set (split (combined_text p)) \<noteq> {}
        \<or> business_terms \<inter> set (split (combined_text p)) \<noteq> {})"
  using assms
  by (auto simp: fast_prefilter_def prefilter_keeps_def Let_def split: if_splits)

theorem fast_prefilter_keeps_witness:
  "15 \<le> length (combined_text
     \<lparr>content = ''need help with my website'', title = ''urgent'', author = ''bob'',
      source_subreddit = ''smallbusiness'', subreddit = [], score = 1, lead_score = 0,
      base_score = 0, urgency_boost = 0, budget_boost = 0, intelligence_boost = 0,
      classification_tier = None, priority_level = None, extra = Map.empty\<rparr>)
   \<and> \<lparr>content = ''need help with my website'', title = ''urgent'', author = ''bob'',
      source_subreddit = ''smallbusiness'', subreddit = [], score = 1, lead_score = 0,
      base_score = 0, urgency_boost = 0, budget_boost = 0, intelligence_boost = 0,
      classification_tier = None, priority_level = None, extra = Map.empty\<rparr>
     \<in> set (fast_prefilter
         [\<lparr>content = ''need help with my website'', title = ''urgent'', author = ''bob'',
           source_subreddit = ''smallbusiness'', subreddit = [], score = 1, lead_score = 0,
           base_score = 0, urgency_boost = 0, budget_boost = 0, intelligence_boost = 0,
           classification_tier = None, priority_level = None, extra = Map.empty\<rparr>]
         ''web design'')"
proof -
  have k: "prefilter_keeps (set (split (lower ''web design'')))
     \<lparr>content = ''need help with my website'', title = ''urgent'', author = ''bob'',
      source_subreddit = ''smallbusiness'', subreddit = [], score = 1, lead_score = 0,
      base_score = 0, urgency_boost = 0, budget_boost = 0, intelligence_boost = 0,
      classification_tier = None, priority_level = None, extra = Map.empty\<rparr>"
    by code_simp
  have m: "\<lparr>content = ''need help with my website'', title = ''urgent'', author = ''bob'',
      source_subreddit = ''smallbusiness'', subreddit = [], score = 1, lead_score = 0,
      base_score = 0, urgency_boost = 0, budget_boost = 0, intelligence_boost = 0,
      classification_tier = None, priority_level = None, extra = Map.empty\<rparr>
     \<in> set (fast_prefilter
         [\<lparr>content = ''need help with my website'', title = ''urgent'', author = ''bob'',
           source_subreddit = ''smallbusiness'', subreddit = [], score = 1, lead_score = 0,
           base_score = 0, urgency_boost = 0, budget_boost = 0, intelligence_boost = 0,
           classification_tier = None, priority_level = None, extra = Map.empty\<rparr>]
         ''web design'')"
    using k by (simp add: fast_prefilter_def)
  show ?thesis
    using m fast_prefilter_keeps [OF m] by blast
qed

text \<open>
  C8 as stated fails on the minimum length: a prospect whose combined text has 16
  characters, fewer than 20, passes the prefilter.
\<close>

theorem short_text_passes_prefilter:
  "length (combined_text
     \<lparr>content = ''need help'', title = ''urgent'', author = ''bob'',
      source_subreddit = ''smallbusiness'', subreddit = [], score = 1, lead_score = 0,
      base_score = 0, urgency_boost = 0, budget_boost = 0, intelligence_boost = 0,
      classification_tier = None, priority_level = None, extra = Map.empty\<rparr>) = 16
   \<and> map author (fast_prefilter
       [\<lparr>content = ''need help'', title = ''urgent'', author = ''bob'',
         source_subreddit = ''smallbusiness'', subreddit = [], score = 1, lead_score = 0,
         base_score = 0, urgency_boost = 0, budget_boost = 0, intelligence_boost = 0,
         classification_tier = None, priority_level = None, extra = Map.empty\<rparr>]
       ''web design'')
     = [''bob'']"
  by code_simp

text \<open>
  C10. For a maximum that is not negative, the returned list has pairwise distinct
  authors and at most \<open>max_results\<close> entries, all of them leads of the input; each entry
  is the first lead of its author in the sorted list, so the highest-ranked lead of an
  author is the one that stays.
\<close>

theorem one_lead_per_author:
  assumes "0 \<le> max_results"
  shows "distinct (map author (rank_and_optimize leads max_results))
         \<and> int (length (rank_and_optimize leads max_results)) \<le> max_results
         \<and> set (rank_and_optimize leads max_results) \<subseteq> set leads
         \<and> (\<forall>l\<in>set (rank_and_optimize leads max_results).
               List.find (\<lambda>x. author x = author l) (sort_reverse leads) = Some l)"
  using assms unique_authors_distinct [of "[]" "{}" max_results "sort_reverse leads"]
    unique_authors_length [of max_results "{}" "[]" "sort_reverse leads"]
    unique_authors_set [of max_results "{}" "[]" "sort_reverse leads"]
    unique_authors_first [of "[]" "[]" max_results "{}" "sort_reverse leads"]
  by (simp add: rank_and_optimize_def sort_reverse_set)

theorem one_lead_per_author_witness:
  "(0::int) \<le> 2
   \<and> map author (rank_and_optimize
       [\<lparr>content = ''need a supplier'', title = ''help'', author = ''ann'',
         source_subreddit = ''sourcing'', subreddit = ''sourcing'', score = 4, lead_score = 70,
         base_score = 70, urgency_boost = 0, budget_boost = 0, intelligence_boost = 0,
         classification_tier = Some Silver, priority_level = Some Medium, extra = Map.empty\<rparr>,
        \<lparr>content = ''need a factory'', title = ''urgent'', author = ''bob'',
         source_subreddit = ''sourcing'', subreddit = ''sourcing'', score = 2, lead_score = 80,
         base_score = 77, urgency_boost = 3, budget_boost = 0, intelligence_boost = 0,
         classification_tier = Some Silver, priority_level = Some Medium, extra = Map.empty\<rparr>,
        \<lparr>content = ''need a supplier now'', title = ''asap'', author = ''ann'',
         source_subreddit = ''sourcing'', subreddit = ''sourcing'', score = 9, lead_score = 90,
         base_score = 87, urgency_boost = 3, budget_boost = 0, intelligence_boost = 0,
         classification_tier = Some Gold, priority_level = Some High, extra = Map.empty\<rparr>] 2)
     = [''ann'', ''bob'']
   \<and> distinct (map author (rank_and_optimize
       [\<lparr>content = ''need a supplier'', title = ''help'', author = ''ann'',
         source_subreddit = ''sourcing'', subreddit = ''sourcing'', score = 4, lead_score = 70,
         base_score = 70, urgency_boost = 0, budget_boost = 0, intelligence_boost = 0,
         classification_tier = Some Silver, priority_level = Some Medium, extra = Map.empty\<rparr>,
        \<lparr>content = ''need a factory'', title = ''urgent'', author = ''bob'',
         source_subreddit = ''sourcing'', subreddit = ''sourcing'', score = 2, lead_score = 80,
         base_score = 77, urgency_boost = 3, budget_boost = 0, intelligence_boost = 0,
         classification_tier = Some Silver, priority_level = Some Medium, extra = Map.empty\<rparr>,
        \<lparr>content = ''need a supplier now'', title = ''asap'', author = ''ann'',
         source_subreddit = ''sourcing'', subreddit = ''sourcing'', score = 9, lead_score = 90,
         base_score = 87, urgency_boost = 3, budget_boost = 0, intelligence_boost = 0,
         classification_tier = Some Gold, priority_level = Some High, extra = Map.empty\<rparr>] 2))"
proof -
  have e: "map author (rank_and_optimize
       [\<lparr>content = ''need a supplier'', title = ''help'', author = ''ann'',
         source_subreddit = ''sourcing'', subreddit = ''sourcing'', score = 4, lead_score = 70,
         base_score = 70, urgency_boost = 0, budget_boost = 0, intelligence_boost = 0,
         classification_tier = Some Silver, priority_level = Some Medium, extra = Map.empty\<rparr>,
        \<lparr>content = ''need a factory'', title = ''urgent'', author = ''bob'',
         source_subreddit = ''sourcing'', subreddit = ''sourcing'', score = 2, lead_score = 80,
         base_score = 77, urgency_boost = 3, budget_boost = 0, intelligence_boost = 0,
         classification_tier = Some Silver, priority_level = Some Medium, extra = Map.empty\<rparr>,
        \<lparr>content = ''need a supplier now'', title = ''asap'', author = ''ann'',
         source_subreddit = ''sourcing'', subreddit = ''sourcing'', score = 9, lead_score = 90,
         base_score = 87, urgency_boost = 3, budget_boost = 0, intelligence_boost = 0,
         classification_tier = Some Gold, priority_level = Some High, extra = Map.empty\<rparr>] 2)
     = [''ann'', ''bob'']"
    by code_simp
  have h: "(0::int) \<le> 2" by simp
  show ?thesis
    using e h one_lead_per_author [OF h] by blast
qed

end
